theory Spec2Isabelle
  imports Main "HOL-Library.Sublist"
begin

section \<open>Values, errors and the environment of a run\<close>

text \<open>
  The two scripts \<^verbatim>\<open>json_to_csv_v1.py\<close> and \<^verbatim>\<open>json_to_csv_v3.py\<close>, run under Python 3,
  read session records with \<^verbatim>\<open>json.loads\<close> and hand lists of Python values to
  \<^verbatim>\<open>csvwriter.writerow\<close>. The values \<^verbatim>\<open>json.loads\<close> can return are modelled by \<open>json\<close>:
  \<open>JObj\<close> is a Python \<^verbatim>\<open>dict\<close> with string keys, given as an association list and
  looked up with \<open>map_of\<close> (the keys of a parsed \<^verbatim>\<open>dict\<close> are distinct; nothing below
  relies on it), \<open>JInt\<close> is a Python \<^verbatim>\<open>int\<close>, and \<open>JFloat\<close> a Python \<^verbatim>\<open>float\<close>, carried as
  its \<^verbatim>\<open>repr\<close> since no arithmetic is ever done on it. A Python \<^verbatim>\<open>str\<close> is a \<open>string\<close>
  holding its UTF-8 bytes; the scripts only test strings against ASCII patterns, where
  bytes and code points agree.
\<close>

datatype json =
    JNull
  | JBool bool
  | JInt int
  | JFloat string
  | JStr string
  | JList "json list"
  | JObj "(string \<times> json) list"

text \<open>
  The exceptions a run can end with. \<open>KeyError k\<close> is the lookup error of a \<^verbatim>\<open>dict\<close>
  subscript with a missing key \<open>k\<close>; \<open>TypeError\<close> is raised by subscripting, iterating or
  testing membership in a value that does not support it; \<open>JSONDecodeError\<close> and \<open>OSError\<close>
  come from \<^verbatim>\<open>json.loads\<close>, \<^verbatim>\<open>io.open\<close>, \<^verbatim>\<open>read\<close> and \<^verbatim>\<open>listdir\<close>.
\<close>

datatype error = KeyError string | TypeError | JSONDecodeError | OSError

type_synonym row = "json list"

text \<open>
  What a run reads from the outside world: the result of \<^verbatim>\<open>listdir(DATA_PATH)\<close> and, for
  each file name \<open>f\<close>, the result of opening \<^verbatim>\<open>DATA_PATH + f\<close>, reading it and passing its
  content to \<^verbatim>\<open>json.loads\<close>.
\<close>

record env =
  listdir :: "error + string list"
  load :: "string \<Rightarrow> error + json"

text \<open>
  The state a run changes: the flag \<^verbatim>\<open>write_index\<close>, the rows that have been passed to
  \<^verbatim>\<open>csvwriter.writerow\<close> on the output file, in order, and the names of the files that
  have been passed to \<^verbatim>\<open>io.open\<close> for reading, in order. The progress line printed for
  each file is not modelled.
\<close>

record wstate =
  write_index :: int
  csv_output :: "row list"
  opened :: "string list"

section \<open>Python operations used by the scripts\<close>

text \<open>\<^verbatim>\<open>f.endswith(suf)\<close> and \<^verbatim>\<open>sub in f\<close> on strings.\<close>

definition endswith :: "string \<Rightarrow> string \<Rightarrow> bool" where
  "endswith f suf = suffix suf f"

definition str_contains :: "string \<Rightarrow> string \<Rightarrow> bool" where
  "str_contains sub f = sublist sub f"

text \<open>\<^verbatim>\<open>d[k]\<close> with a string key \<open>k\<close>.\<close>

fun subscript :: "json \<Rightarrow> string \<Rightarrow> error + json" where
  "subscript (JObj kvs) k =
     (case map_of kvs k of None \<Rightarrow> Inl (KeyError k) | Some v \<Rightarrow> Inr v)"
| "subscript _ k = Inl TypeError"

text \<open>\<^verbatim>\<open>k in r\<close> with a string \<open>k\<close>.\<close>

fun py_in :: "string \<Rightarrow> json \<Rightarrow> error + bool" where
  "py_in k (JObj kvs) = Inr (map_of kvs k \<noteq> None)"
| "py_in k (JList xs) = Inr (List.member xs (JStr k))"
| "py_in k (JStr s) = Inr (str_contains k s)"
| "py_in k _ = Inl TypeError"

text \<open>
  The values \<^verbatim>\<open>for r in round_data\<close> runs through: the elements of a list, the keys of
  a \<^verbatim>\<open>dict\<close>, the characters of a string; anything else is not iterable.
\<close>

fun py_iter :: "json \<Rightarrow> error + json list" where
  "py_iter (JList xs) = Inr xs"
| "py_iter (JObj kvs) = Inr (map (\<lambda>kv. JStr (fst kv)) kvs)"
| "py_iter (JStr s) = Inr (map (\<lambda>c. JStr [c]) s)"
| "py_iter _ = Inl TypeError"

text \<open>
  A list display \<^verbatim>\<open>[e1, e2, ...]\<close>: the elements are evaluated from left to right, and
  the first one that raises ends the evaluation.
\<close>

fun list_display :: "(error + json) list \<Rightarrow> error + row" where
  "list_display [] = Inr []"
| "list_display (x # xs) =
     (case x of
        Inl e \<Rightarrow> Inl e
      | Inr v \<Rightarrow> (case list_display xs of Inl e \<Rightarrow> Inl e | Inr vs \<Rightarrow> Inr (v # vs)))"

text \<open>
  \<^verbatim>\<open>csvwriter.writerow(vals)\<close>: one more row in the output file. Writing a row is taken
  never to fail.
\<close>

definition writerow :: "row \<Rightarrow> wstate \<Rightarrow> wstate" where
  "writerow vals s = s\<lparr>csv_output := csv_output s @ [vals]\<rparr>"

section \<open>The Directory Scanner\<close>

definition selected :: "string \<Rightarrow> bool" where
  "selected f \<longleftrightarrow>
     endswith f ''.json''
     \<and> \<not> str_contains ''TEST'' f
     \<and> \<not> str_contains ''freeResp'' f
     \<and> \<not> str_contains ''sliderData'' f"

definition files :: "string list \<Rightarrow> string list" where
  "files names = filter selected names"

section \<open>The pipeline shared by both scripts\<close>

text \<open>
  Both scripts run the same loops; they differ in the header and in the two lists of
  values built for a round. \<open>vals parsed_data r\<close> stands for everything the loop body
  evaluates before its two \<^verbatim>\<open>writerow\<close> calls: it returns \<^verbatim>\<open>(p1_vals, p2_vals)\<close> or the
  exception raised on the way. An exception leaves the loop at once; the result of a loop
  is the exception, if any, and the state reached.
\<close>

fun rounds_loop :: "(json \<Rightarrow> error + row \<times> row) \<Rightarrow> json list \<Rightarrow> wstate \<Rightarrow> error option \<times> wstate" where
  "rounds_loop vals [] s = (None, s)"
| "rounds_loop vals (r # rs) s =
     (case vals r of
        Inl e \<Rightarrow> (Some e, s)
      | Inr (p1_vals, p2_vals) \<Rightarrow> rounds_loop vals rs (writerow p2_vals (writerow p1_vals s)))"

definition write_header :: "string list \<Rightarrow> wstate \<Rightarrow> wstate" where
  "write_header header s =
     (if write_index s = 0 then (writerow (map JStr header) s)\<lparr>write_index := 1\<rparr> else s)"

definition file_body ::
  "string list \<Rightarrow> (json \<Rightarrow> json \<Rightarrow> error + row \<times> row) \<Rightarrow> (string \<Rightarrow> error + json) \<Rightarrow>
   string \<Rightarrow> wstate \<Rightarrow> error option \<times> wstate" where
  "file_body header vals ld f s0 =
     (let s = s0\<lparr>opened := opened s0 @ [f]\<rparr> in
      case ld f of
        Inl e \<Rightarrow> (Some e, s)
      | Inr parsed_data \<Rightarrow>
          (case subscript parsed_data ''rounds'' of
             Inl e \<Rightarrow> (Some e, s)
           | Inr round_data \<Rightarrow>
               (let s' = write_header header s in
                case py_iter round_data of
                  Inl e \<Rightarrow> (Some e, s')
                | Inr rs \<Rightarrow> rounds_loop (vals parsed_data) rs s')))"

fun files_loop ::
  "string list \<Rightarrow> (json \<Rightarrow> json \<Rightarrow> error + row \<times> row) \<Rightarrow> (string \<Rightarrow> error + json) \<Rightarrow>
   string list \<Rightarrow> wstate \<Rightarrow> error option \<times> wstate" where
  "files_loop header vals ld [] s = (None, s)"
| "files_loop header vals ld (f # fs) s =
     (case file_body header vals ld f s of
        (Some e, s') \<Rightarrow> (Some e, s')
      | (None, s') \<Rightarrow> files_loop header vals ld fs s')"

text \<open>
  A run. The output file is opened in mode \<^verbatim>\<open>"w"\<close> before anything else, which empties
  it: \<open>old\<close>, the rows it held before the run, is dropped. Then the directory is listed.
\<close>

definition open_w :: "row list \<Rightarrow> wstate" where
  "open_w old = \<lparr>write_index = 0, csv_output = [], opened = []\<rparr>"

definition main ::
  "string list \<Rightarrow> (json \<Rightarrow> json \<Rightarrow> error + row \<times> row) \<Rightarrow> env \<Rightarrow> row list \<Rightarrow>
   error option \<times> wstate" where
  "main header vals e old =
     (let s = open_w old in
      case listdir e of
        Inl err \<Rightarrow> (Some err, s)
      | Inr names \<Rightarrow> files_loop header vals (load e) (files names) s)"

section \<open>Version 1\<close>

definition header_v1 :: "string list" where
  "header_v1 =
     [''game_id'', ''round_index'', ''player_id'', ''round_begin_ts'',
      ''player_move'', ''player_rt'', ''player_outcome'', ''player_outcome_viewtime'',
      ''player_points'', ''player_total'']"

definition p1_vals_v1 :: "json \<Rightarrow> error + row" where
  "p1_vals_v1 r = list_display
     [subscript r ''game_id'', subscript r ''round_index'', subscript r ''player1_id'',
      subscript r ''round_begin_ts'',
      subscript r ''player1_move'', subscript r ''player1_rt'', subscript r ''player1_outcome'',
      subscript r ''player1_outcome_viewtime'',
      subscript r ''player1_points'', subscript r ''player1_total'']"

definition p2_vals_v1 :: "json \<Rightarrow> error + row" where
  "p2_vals_v1 r = list_display
     [subscript r ''game_id'', subscript r ''round_index'', subscript r ''player2_id'',
      subscript r ''round_begin_ts'',
      subscript r ''player2_move'', subscript r ''player2_rt'', subscript r ''player2_outcome'',
      subscript r ''player2_outcome_viewtime'',
      subscript r ''player2_points'', subscript r ''player2_total'']"

definition vals_v1 :: "json \<Rightarrow> json \<Rightarrow> error + row \<times> row" where
  "vals_v1 parsed_data r =
     (case p1_vals_v1 r of
        Inl e \<Rightarrow> Inl e
      | Inr p1_vals \<Rightarrow>
          (case p2_vals_v1 r of Inl e \<Rightarrow> Inl e | Inr p2_vals \<Rightarrow> Inr (p1_vals, p2_vals)))"

definition main_v1 :: "env \<Rightarrow> row list \<Rightarrow> error option \<times> wstate" where
  "main_v1 = main header_v1 vals_v1"

section \<open>Version 3\<close>

definition header_v3 :: "string list" where
  "header_v3 =
     [''game_id'', ''version'', ''is_sona_autocredit'', ''sona_experiment_id'',
      ''sona_credit_token'', ''sona_survey_code'',
      ''round_index'', ''player_id'', ''is_bot'', ''bot_strategy'', ''bot_round_memory'',
      ''round_begin_ts'', ''player_move'', ''player_rt'', ''player_outcome'',
      ''player_outcome_viewtime'',
      ''player_points'', ''player_total'']"

text \<open>
  \<^verbatim>\<open>if k in r: x = r[k]\<close>, \<^verbatim>\<open>else: x = "NA"\<close>, as the loop body does for
  \<^verbatim>\<open>player2_memory_struct\<close> and \<^verbatim>\<open>player2_move\<close>.
\<close>

definition get_or_NA :: "json \<Rightarrow> string \<Rightarrow> error + json" where
  "get_or_NA r k =
     (case py_in k r of
        Inl e \<Rightarrow> Inl e
      | Inr b \<Rightarrow> if b then subscript r k else Inr (JStr ''NA''))"

definition p1_vals_v3 :: "json \<Rightarrow> json \<Rightarrow> error + row" where
  "p1_vals_v3 parsed_data r = list_display
     [subscript r ''game_id'',
      subscript parsed_data ''version'', subscript parsed_data ''sona'',
      subscript parsed_data ''experiment_id'', subscript parsed_data ''credit_token'',
      subscript parsed_data ''survey_code'',
      subscript r ''round_index'', subscript r ''player1_id'', Inr (JInt 0),
      subscript parsed_data ''player2_bot_strategy'', Inr (JStr ''NA''),
      subscript r ''round_begin_ts'',
      subscript r ''player1_move'', subscript r ''player1_rt'', subscript r ''player1_outcome'',
      subscript r ''player1_outcome_viewtime'',
      subscript r ''player1_points'', subscript r ''player1_total'']"

definition p2_vals_v3 :: "json \<Rightarrow> json \<Rightarrow> json \<Rightarrow> json \<Rightarrow> error + row" where
  "p2_vals_v3 parsed_data r memory_struct player2_move = list_display
     [subscript r ''game_id'',
      subscript parsed_data ''version'', subscript parsed_data ''sona'',
      subscript parsed_data ''experiment_id'', subscript parsed_data ''credit_token'',
      subscript parsed_data ''survey_code'',
      subscript r ''round_index'', subscript parsed_data ''player2_botid'', Inr (JInt 1),
      subscript parsed_data ''player2_bot_strategy'',
      Inr memory_struct,
      subscript r ''round_begin_ts'',
      Inr player2_move,
      subscript r ''player2_rt'', subscript r ''player2_outcome'',
      subscript r ''player2_outcome_viewtime'',
      subscript r ''player2_points'', subscript r ''player2_total'']"

definition vals_v3 :: "json \<Rightarrow> json \<Rightarrow> error + row \<times> row" where
  "vals_v3 parsed_data r =
     (case get_or_NA r ''player2_memory_struct'' of
        Inl e \<Rightarrow> Inl e
      | Inr memory_struct \<Rightarrow>
          (case get_or_NA r ''player2_move'' of
             Inl e \<Rightarrow> Inl e
           | Inr player2_move \<Rightarrow>
               (case p1_vals_v3 parsed_data r of
                  Inl e \<Rightarrow> Inl e
                | Inr p1_vals \<Rightarrow>
                    (case p2_vals_v3 parsed_data r memory_struct player2_move of
                       Inl e \<Rightarrow> Inl e
                     | Inr p2_vals \<Rightarrow> Inr (p1_vals, p2_vals)))))"

definition main_v3 :: "env \<Rightarrow> row list \<Rightarrow> error option \<times> wstate" where
  "main_v3 = main header_v3 vals_v3"

section \<open>Rendering a row\<close>

text \<open>
  \<^verbatim>\<open>csv.writer\<close> belongs to the Python standard library. What it writes for a row, in its
  default dialect, is modelled for rows of scalars: \<^verbatim>\<open>None\<close> becomes the empty field, a
  string is written as it is unless it holds a comma, a double quote, a carriage return or
  a line feed (then it is put in double quotes, with every double quote doubled), and any
  other value is written as \<^verbatim>\<open>str\<close> gives it. How \<^verbatim>\<open>str\<close> prints a list or a
  \<^verbatim>\<open>dict\<close> is not modelled: such a field has no rendering here. A row whose fields
  give no character at all (one empty field) is written as two double quotes. The line
  terminator is left out.
\<close>

fun str_nat :: "nat \<Rightarrow> string" where
  "str_nat n =
     (if n < 10 then [char_of (48 + n)] else str_nat (n div 10) @ [char_of (48 + n mod 10)])"

definition str_int :: "int \<Rightarrow> string" where
  "str_int i = (if i < 0 then CHR ''-'' # str_nat (nat (- i)) else str_nat (nat i))"

definition special_char :: "char \<Rightarrow> bool" where
  "special_char c \<longleftrightarrow> c = CHR '','' \<or> c = CHR 0x22 \<or> c = CHR 0x0D \<or> c = CHR 0x0A"

definition quote_minimal :: "string \<Rightarrow> string" where
  "quote_minimal s =
     (if list_ex special_char s
      then [CHR 0x22] @ concat (map (\<lambda>c. if c = CHR 0x22 then [c, c] else [c]) s) @ [CHR 0x22]
      else s)"

fun csv_field :: "json \<Rightarrow> string option" where
  "csv_field JNull = Some []"
| "csv_field (JBool b) = Some (if b then ''True'' else ''False'')"
| "csv_field (JInt i) = Some (str_int i)"
| "csv_field (JFloat repr) = Some repr"
| "csv_field (JStr s) = Some (quote_minimal s)"
| "csv_field (JList xs) = None"
| "csv_field (JObj kvs) = None"

fun join_fields :: "string option list \<Rightarrow> string option" where
  "join_fields [] = Some []"
| "join_fields [x] = x"
| "join_fields (x # y # ys) =
     (case x of
        None \<Rightarrow> None
      | Some a \<Rightarrow> (case join_fields (y # ys) of None \<Rightarrow> None | Some b \<Rightarrow> Some (a @ '','' @ b)))"

definition csv_line :: "row \<Rightarrow> string option" where
  "csv_line vals =
     (case join_fields (map csv_field vals) of
        None \<Rightarrow> None
      | Some l \<Rightarrow> if l = [] \<and> vals \<noteq> [] then Some [CHR 0x22, CHR 0x22] else Some l)"

section \<open>Notions used to state the properties\<close>

text \<open>The selected files of the listed directory; none when the directory cannot be listed.\<close>

definition listed :: "env \<Rightarrow> string list" where
  "listed e = (case listdir e of Inl err \<Rightarrow> [] | Inr names \<Rightarrow> files names)"

text \<open>A record that is a \<^verbatim>\<open>dict\<close> holding every key of a list.\<close>

fun has_keys :: "json \<Rightarrow> string list \<Rightarrow> bool" where
  "has_keys (JObj kvs) ks = list_all (\<lambda>k. map_of kvs k \<noteq> None) ks"
| "has_keys _ ks = False"

text \<open>
  The keys the loop bodies subscript without a test: in version 1 the seventeen fields of
  a round; in version 3 fifteen fields of a round and seven fields of the session record.
  Version 3 tests for two more keys of a round before it reads them.
\<close>

definition round_keys_v1 :: "string list" where
  "round_keys_v1 =
     [''game_id'', ''round_index'', ''round_begin_ts'',
      ''player1_id'', ''player1_move'', ''player1_rt'', ''player1_outcome'',
      ''player1_outcome_viewtime'', ''player1_points'', ''player1_total'',
      ''player2_id'', ''player2_move'', ''player2_rt'', ''player2_outcome'',
      ''player2_outcome_viewtime'', ''player2_points'', ''player2_total'']"

definition round_keys_v3 :: "string list" where
  "round_keys_v3 =
     [''game_id'', ''round_index'', ''round_begin_ts'',
      ''player1_id'', ''player1_move'', ''player1_rt'', ''player1_outcome'',
      ''player1_outcome_viewtime'', ''player1_points'', ''player1_total'',
      ''player2_rt'', ''player2_outcome'',
      ''player2_outcome_viewtime'', ''player2_points'', ''player2_total'']"

definition session_keys_v3 :: "string list" where
  "session_keys_v3 =
     [''version'', ''sona'', ''experiment_id'', ''credit_token'', ''survey_code'',
      ''player2_bot_strategy'', ''player2_botid'']"

definition optional_keys_v3 :: "string list" where
  "optional_keys_v3 = [''player2_memory_struct'', ''player2_move'']"

text \<open>The rows written for a list of rounds: \<^verbatim>\<open>p1_vals\<close>, then \<^verbatim>\<open>p2_vals\<close>, round by round.\<close>

fun rows_of :: "(row \<times> row) list \<Rightarrow> row list" where
  "rows_of [] = []"
| "rows_of ((p1_vals, p2_vals) # ps) = p1_vals # p2_vals # rows_of ps"

text \<open>The output once the header test of a file has been passed.\<close>

definition after_header :: "string list \<Rightarrow> wstate \<Rightarrow> row list" where
  "after_header header s =
     csv_output s @ (if write_index s = 0 then [map JStr header] else [])"

text \<open>The value of a row in the column of a given name.\<close>

definition column :: "string list \<Rightarrow> string \<Rightarrow> row \<Rightarrow> json option" where
  "column header name vals = map_of (zip header vals) name"

text \<open>
  A file whose rounds list has been extracted: it was read, parsed, and its record has
  the key \<^verbatim>\<open>rounds\<close>. This is the point of the loop body where the header test stands.
\<close>

definition rounds_extracted :: "(string \<Rightarrow> error + json) \<Rightarrow> string \<Rightarrow> bool" where
  "rounds_extracted ld f =
     (case ld f of
        Inl e \<Rightarrow> False
      | Inr parsed_data \<Rightarrow>
          (case subscript parsed_data ''rounds'' of Inl e \<Rightarrow> False | Inr round_data \<Rightarrow> True))"

text \<open>The rounds of a file, each with the session record it belongs to.\<close>

definition file_rounds :: "(string \<Rightarrow> error + json) \<Rightarrow> string \<Rightarrow> (json \<times> json) list" where
  "file_rounds ld f =
     (case ld f of
        Inl e \<Rightarrow> []
      | Inr parsed_data \<Rightarrow>
          (case subscript parsed_data ''rounds'' of
             Inl e \<Rightarrow> []
           | Inr round_data \<Rightarrow>
               (case py_iter round_data of
                  Inl e \<Rightarrow> []
                | Inr rs \<Rightarrow> map (Pair parsed_data) rs)))"

text \<open>A pair of data rows: the two lists of values built for some round of one of the files.\<close>

definition data_pair ::
  "(json \<Rightarrow> json \<Rightarrow> error + row \<times> row) \<Rightarrow> (string \<Rightarrow> error + json) \<Rightarrow> string list \<Rightarrow>
   row \<times> row \<Rightarrow> bool" where
  "data_pair vals ld fs p =
     list_ex (\<lambda>f. list_ex (\<lambda>(parsed_data, r). vals parsed_data r = Inr p) (file_rounds ld f)) fs"

text \<open>
  The shape of the output at any moment of a run: nothing as long as no opened file had
  its rounds list extracted; from then on the header row, once, followed by data rows only.
\<close>

definition lazy_header ::
  "string list \<Rightarrow> (json \<Rightarrow> json \<Rightarrow> error + row \<times> row) \<Rightarrow> (string \<Rightarrow> error + json) \<Rightarrow>
   wstate \<Rightarrow> bool" where
  "lazy_header header vals ld s \<longleftrightarrow>
     (if list_ex (rounds_extracted ld) (opened s)
      then write_index s = 1 \<and>
           (\<exists>ps. csv_output s = map JStr header # rows_of ps
                \<and> list_all (data_pair vals ld (opened s)) ps)
      else write_index s = 0 \<and> csv_output s = [])"

section \<open>Concrete sessions\<close>

text \<open>
  Scenario A is the one-round session of version 1 in a file \<^verbatim>\<open>g1.json\<close>. Scenario B is a
  session of version 3 played against the bot strategy \<^verbatim>\<open>nash\<close>, whose only round has no
  \<^verbatim>\<open>player2_move\<close> and has a \<^verbatim>\<open>player2_memory_struct\<close>.
\<close>

definition scenario_A_fields :: "(string \<times> json) list" where
  "scenario_A_fields =
     [(''game_id'', JStr ''g1''), (''round_index'', JInt 0),
      (''player1_id'', JStr ''p1''), (''player2_id'', JStr ''p2''),
      (''round_begin_ts'', JInt 100),
      (''player1_move'', JStr ''rock''), (''player2_move'', JStr ''scissors''),
      (''player1_rt'', JInt 500), (''player2_rt'', JInt 600),
      (''player1_outcome'', JStr ''win''), (''player2_outcome'', JStr ''lose''),
      (''player1_outcome_viewtime'', JInt 200), (''player2_outcome_viewtime'', JInt 200),
      (''player1_points'', JInt 1), (''player2_points'', JInt 0),
      (''player1_total'', JInt 1), (''player2_total'', JInt 0)]"

definition scenario_A_record :: json where
  "scenario_A_record = JObj [(''rounds'', JList [JObj scenario_A_fields])]"

definition scenario_A_env :: env where
  "scenario_A_env =
     \<lparr>listdir = Inr [''g1.json''],
      load = (\<lambda>f. if f = ''g1.json'' then Inr scenario_A_record else Inl OSError)\<rparr>"

definition scenario_A_p1 :: row where
  "scenario_A_p1 =
     [JStr ''g1'', JInt 0, JStr ''p1'', JInt 100, JStr ''rock'', JInt 500, JStr ''win'',
      JInt 200, JInt 1, JInt 1]"

definition scenario_A_p2 :: row where
  "scenario_A_p2 =
     [JStr ''g1'', JInt 0, JStr ''p2'', JInt 100, JStr ''scissors'', JInt 600, JStr ''lose'',
      JInt 200, JInt 0, JInt 0]"

definition scenario_B_round :: "(string \<times> json) list" where
  "scenario_B_round =
     [(''game_id'', JStr ''b1''), (''round_index'', JInt 0), (''round_begin_ts'', JInt 100),
      (''player1_id'', JStr ''p1''), (''player1_move'', JStr ''paper''),
      (''player1_rt'', JInt 500), (''player1_outcome'', JStr ''tie''),
      (''player1_outcome_viewtime'', JInt 200),
      (''player1_points'', JInt 0), (''player1_total'', JInt 0),
      (''player2_memory_struct'', JObj [(''rock'', JInt 1)]),
      (''player2_rt'', JInt 0), (''player2_outcome'', JStr ''tie''),
      (''player2_outcome_viewtime'', JInt 0),
      (''player2_points'', JInt 0), (''player2_total'', JInt 0)]"

definition scenario_B_session :: "(string \<times> json) list" where
  "scenario_B_session =
     [(''version'', JInt 3), (''sona'', JInt 0), (''experiment_id'', JStr ''e1''),
      (''credit_token'', JStr ''t1''), (''survey_code'', JStr ''c1''),
      (''player2_bot_strategy'', JStr ''nash''), (''player2_botid'', JStr ''bot1''),
      (''rounds'', JList [JObj scenario_B_round])]"

definition scenario_B_p1 :: row where
  "scenario_B_p1 =
     [JStr ''b1'', JInt 3, JInt 0, JStr ''e1'', JStr ''t1'', JStr ''c1'',
      JInt 0, JStr ''p1'', JInt 0, JStr ''nash'', JStr ''NA'', JInt 100,
      JStr ''paper'', JInt 500, JStr ''tie'', JInt 200, JInt 0, JInt 0]"

definition scenario_B_p2 :: row where
  "scenario_B_p2 =
     [JStr ''b1'', JInt 3, JInt 0, JStr ''e1'', JStr ''t1'', JStr ''c1'',
      JInt 0, JStr ''bot1'', JInt 1, JStr ''nash'', JObj [(''rock'', JInt 1)], JInt 100,
      JStr ''NA'', JInt 0, JStr ''tie'', JInt 0, JInt 0, JInt 0]"




section \<open>Auxiliary facts\<close>

lemma endswith_iff: "endswith f suf \<longleftrightarrow> (\<exists>p. f = p @ suf)"
  by (auto simp: endswith_def suffix_def)

lemma str_contains_iff: "str_contains sub f \<longleftrightarrow> (\<exists>p s. f = p @ sub @ s)"
  by (auto simp: str_contains_def sublist_def)

lemma rounds_loop_frame:
  "opened (snd (rounds_loop vals rs s)) = opened s \<and> write_index (snd (rounds_loop vals rs s)) = write_index s"
  by (induction rs arbitrary: s) (auto simp: writerow_def split: sum.splits prod.splits)

lemma write_header_opened: "opened (write_header h s) = opened s"
  by (simp add: write_header_def writerow_def)

lemma file_body_opened: "opened (snd (file_body h v ld f s)) = opened s @ [f]"
  by (simp add: file_body_def Let_def rounds_loop_frame write_header_opened split: sum.splits)

lemma files_loop_opened:
  "\<exists>n. opened (snd (files_loop h v ld fs s)) = opened s @ take n fs"
proof (induction fs arbitrary: s)
  case Nil
  then show ?case by simp
next
  case (Cons f fs)
  obtain r s' where fb: "file_body h v ld f s = (r, s')" by (cases "file_body h v ld f s")
  have op: "opened s' = opened s @ [f]" using file_body_opened [of h v ld f s] fb by simp
  show ?case
  proof (cases r)
    case None
    obtain n where "opened (snd (files_loop h v ld fs s')) = opened s' @ take n fs"
      using Cons.IH by blast
    then have "opened (snd (files_loop h v ld (f # fs) s)) = opened s @ take (Suc n) (f # fs)"
      using fb None op by simp
    then show ?thesis by blast
  next
    case (Some e)
    then have "opened (snd (files_loop h v ld (f # fs) s)) = opened s @ take 1 (f # fs)"
      using fb op by simp
    then show ?thesis by blast
  qed
qed

lemma main_opened: "\<exists>n. opened (snd (main h v e old)) = take n (listed e)"
proof (cases "listdir e")
  case (Inl err)
  then show ?thesis by (simp add: main_def listed_def open_w_def)
next
  case (Inr names)
  obtain n where "opened (snd (files_loop h v (load e) (files names) (open_w old))) = opened (open_w old) @ take n (files names)"
    using files_loop_opened by blast
  then show ?thesis using Inr by (auto simp: main_def listed_def open_w_def)
qed

lemma subscript_Inr_iff [simp]: "subscript (JObj kvs) k = Inr v \<longleftrightarrow> map_of kvs k = Some v"
  by (simp split: option.splits)

lemma subscript_Inl_iff [simp]: "subscript (JObj kvs) k = Inl e \<longleftrightarrow> map_of kvs k = None \<and> e = KeyError k"
  by (auto split: option.splits)

lemma list_display_Inr_iff: "list_display xs = Inr vs \<longleftrightarrow> xs = map Inr vs"
proof (induction xs arbitrary: vs)
  case Nil
  then show ?case by auto
next
  case (Cons x xs)
  show ?case
  proof (cases x)
    case (Inl e)
    then show ?thesis by (cases vs) auto
  next
    case (Inr v)
    show ?thesis
    proof (cases "list_display xs")
      case (Inl e)
      have "xs \<noteq> map Inr (tl vs)" using Cons.IH [of "tl vs"] Inl by simp
      then have "Inr v # xs \<noteq> map Inr vs" by (cases vs) auto
      with Inl Inr show ?thesis by simp
    next
      case r: (Inr ws)
      then have "xs = map Inr ws" using Cons.IH by simp
      with r Inr show ?thesis by (cases vs) auto
    qed
  qed
qed








lemma subscript_present:
  "map_of kvs k \<noteq> None \<Longrightarrow> subscript (JObj kvs) k = Inr (the (map_of kvs k))"
  by (cases "map_of kvs k") auto

lemma get_or_NA_JObj:
  "get_or_NA (JObj kvs) k = Inr (case map_of kvs k of None \<Rightarrow> JStr ''NA'' | Some v \<Rightarrow> v)"
  by (simp add: get_or_NA_def split: option.splits)


lemma vals_v1_present:
  assumes "has_keys (JObj kvs) round_keys_v1"
  shows "\<exists>p1 p2. vals_v1 parsed_data (JObj kvs) = Inr (p1, p2)
     \<and> p1_vals_v1 (JObj kvs) = Inr p1 \<and> p2_vals_v1 (JObj kvs) = Inr p2
     \<and> map Some p1 = map (map_of kvs)
          [''game_id'', ''round_index'', ''player1_id'', ''round_begin_ts'',
           ''player1_move'', ''player1_rt'', ''player1_outcome'', ''player1_outcome_viewtime'',
           ''player1_points'', ''player1_total'']
     \<and> map Some p2 = map (map_of kvs)
          [''game_id'', ''round_index'', ''player2_id'', ''round_begin_ts'',
           ''player2_move'', ''player2_rt'', ''player2_outcome'', ''player2_outcome_viewtime'',
           ''player2_points'', ''player2_total'']"
  using assms
  by (simp add: round_keys_v1_def vals_v1_def p1_vals_v1_def p2_vals_v1_def subscript_present
      del: subscript.simps)

lemma vals_v3_present:
  assumes "has_keys (JObj pkv) session_keys_v3" and "has_keys (JObj rkv) round_keys_v3"
  shows "\<exists>p1 p2. vals_v3 (JObj pkv) (JObj rkv) = Inr (p1, p2)
     \<and> map Some p1 =
          [map_of rkv ''game_id'',
           map_of pkv ''version'', map_of pkv ''sona'', map_of pkv ''experiment_id'',
           map_of pkv ''credit_token'', map_of pkv ''survey_code'',
           map_of rkv ''round_index'', map_of rkv ''player1_id'', Some (JInt 0),
           map_of pkv ''player2_bot_strategy'', Some (JStr ''NA''),
           map_of rkv ''round_begin_ts'',
           map_of rkv ''player1_move'', map_of rkv ''player1_rt'', map_of rkv ''player1_outcome'',
           map_of rkv ''player1_outcome_viewtime'',
           map_of rkv ''player1_points'', map_of rkv ''player1_total'']
     \<and> map Some p2 =
          [map_of rkv ''game_id'',
           map_of pkv ''version'', map_of pkv ''sona'', map_of pkv ''experiment_id'',
           map_of pkv ''credit_token'', map_of pkv ''survey_code'',
           map_of rkv ''round_index'', map_of pkv ''player2_botid'', Some (JInt 1),
           map_of pkv ''player2_bot_strategy'',
           (case map_of rkv ''player2_memory_struct'' of
              None \<Rightarrow> Some (JStr ''NA'') | Some v \<Rightarrow> Some v),
           map_of rkv ''round_begin_ts'',
           (case map_of rkv ''player2_move'' of
              None \<Rightarrow> Some (JStr ''NA'') | Some v \<Rightarrow> Some v),
           map_of rkv ''player2_rt'', map_of rkv ''player2_outcome'',
           map_of rkv ''player2_outcome_viewtime'',
           map_of rkv ''player2_points'', map_of rkv ''player2_total'']"
  using assms
  by (simp add: round_keys_v3_def session_keys_v3_def vals_v3_def p1_vals_v3_def p2_vals_v3_def
      subscript_present get_or_NA_JObj del: subscript.simps split: option.splits)

lemma list_display_Inl_mem: "list_display xs = Inl e \<Longrightarrow> Inl e \<in> set xs"
  by (induction xs) (auto split: sum.splits)



lemma vals_v1_not_dict:
  "\<forall>kvs. r \<noteq> JObj kvs \<Longrightarrow> vals_v1 parsed_data r = Inl TypeError"
  by (cases r) (simp_all add: vals_v1_def p1_vals_v1_def)

lemma vals_v3_error:
  assumes "vals_v3 (JObj pkv) (JObj rkv) = Inl e"
  shows "\<exists>k. e = KeyError k \<and>
     (k \<in> set round_keys_v3 \<and> map_of rkv k = None \<or> k \<in> set session_keys_v3 \<and> map_of pkv k = None)"
proof -
  from assms have "p1_vals_v3 (JObj pkv) (JObj rkv) = Inl e \<or>
     (\<exists>memory_struct player2_move. p2_vals_v3 (JObj pkv) (JObj rkv) memory_struct player2_move = Inl e)"
    by (auto simp: vals_v3_def get_or_NA_JObj split: sum.splits)
  then show ?thesis
  proof
    assume "p1_vals_v3 (JObj pkv) (JObj rkv) = Inl e"
    then have "Inl e \<in> set (map (subscript (JObj rkv)) round_keys_v3)
        \<or> Inl e \<in> set (map (subscript (JObj pkv)) session_keys_v3)"
      by (auto dest!: list_display_Inl_mem simp: p1_vals_v3_def round_keys_v3_def session_keys_v3_def
          simp del: list_display.simps subscript.simps)
    then show ?thesis by (auto split: option.splits)
  next
    assume "\<exists>memory_struct player2_move. p2_vals_v3 (JObj pkv) (JObj rkv) memory_struct player2_move = Inl e"
    then have "Inl e \<in> set (map (subscript (JObj rkv)) round_keys_v3)
        \<or> Inl e \<in> set (map (subscript (JObj pkv)) session_keys_v3)"
      by (auto dest!: list_display_Inl_mem simp: p2_vals_v3_def round_keys_v3_def session_keys_v3_def
          simp del: list_display.simps subscript.simps)
    then show ?thesis by (auto split: option.splits)
  qed
qed

lemma vals_v3_complete:
  assumes "vals_v3 (JObj pkv) (JObj rkv) = Inr p"
  shows "has_keys (JObj pkv) session_keys_v3 \<and> has_keys (JObj rkv) round_keys_v3"
proof -
  from assms obtain p1 p2 ms mv where "p1_vals_v3 (JObj pkv) (JObj rkv) = Inr p1"
    "p2_vals_v3 (JObj pkv) (JObj rkv) ms mv = Inr p2"
    by (auto simp: vals_v3_def split: sum.splits)
  then show ?thesis
    unfolding p1_vals_v3_def p2_vals_v3_def list_display_Inr_iff
    by (auto simp: round_keys_v3_def session_keys_v3_def simp del: subscript.simps)
qed

lemma vals_v3_round_not_dict:
  "\<forall>kvs. r \<noteq> JObj kvs \<Longrightarrow> vals_v3 parsed_data r = Inl TypeError"
  by (cases r) (simp_all add: vals_v3_def get_or_NA_def p1_vals_v3_def)

lemma vals_v3_columns:
  assumes "vals_v3 parsed_data r = Inr (p1, p2)"
  shows "column header_v3 ''bot_round_memory'' p1 = Some (JStr ''NA'')"
    and "column header_v3 ''is_bot'' p1 = Some (JInt 0)"
    and "column header_v3 ''is_bot'' p2 = Some (JInt 1)"
    and "\<exists>v. subscript parsed_data ''player2_botid'' = Inr v \<and> column header_v3 ''player_id'' p2 = Some v"
    and "\<exists>v. get_or_NA r ''player2_move'' = Inr v \<and> column header_v3 ''player_move'' p2 = Some v"
    and "\<exists>v. get_or_NA r ''player2_memory_struct'' = Inr v \<and> column header_v3 ''bot_round_memory'' p2 = Some v"
proof -
  from assms obtain ms mv where ms: "get_or_NA r ''player2_memory_struct'' = Inr ms"
    and mv: "get_or_NA r ''player2_move'' = Inr mv"
    and p1: "p1_vals_v3 parsed_data r = Inr p1"
    and p2: "p2_vals_v3 parsed_data r ms mv = Inr p2"
    by (auto simp: vals_v3_def split: sum.splits)
  from p1 show "column header_v3 ''bot_round_memory'' p1 = Some (JStr ''NA'')"
    and "column header_v3 ''is_bot'' p1 = Some (JInt 0)"
    unfolding p1_vals_v3_def list_display_Inr_iff
    by (auto simp: Cons_eq_map_conv column_def header_v3_def)
  from p2 show "column header_v3 ''is_bot'' p2 = Some (JInt 1)"
    unfolding p2_vals_v3_def list_display_Inr_iff
    by (auto simp: Cons_eq_map_conv column_def header_v3_def)
  from p2 show "\<exists>v. subscript parsed_data ''player2_botid'' = Inr v \<and> column header_v3 ''player_id'' p2 = Some v"
    unfolding p2_vals_v3_def list_display_Inr_iff
    by (auto simp: Cons_eq_map_conv column_def header_v3_def)
  from p2 mv show "\<exists>v. get_or_NA r ''player2_move'' = Inr v \<and> column header_v3 ''player_move'' p2 = Some v"
    unfolding p2_vals_v3_def list_display_Inr_iff
    by (auto simp: Cons_eq_map_conv column_def header_v3_def)
  from p2 ms show "\<exists>v. get_or_NA r ''player2_memory_struct'' = Inr v \<and> column header_v3 ''bot_round_memory'' p2 = Some v"
    unfolding p2_vals_v3_def list_display_Inr_iff
    by (auto simp: Cons_eq_map_conv column_def header_v3_def)
qed

lemma rounds_loop_shape:
  "\<exists>ps. snd (rounds_loop vals rs s) = s\<lparr>csv_output := csv_output s @ rows_of ps\<rparr>
     \<and> map vals (take (length ps) rs) = map Inr ps
     \<and> (case fst (rounds_loop vals rs s) of
          None \<Rightarrow> length ps = length rs
        | Some e \<Rightarrow> length ps < length rs \<and> vals (rs ! length ps) = Inl e)"
proof (induction rs arbitrary: s)
  case Nil
  show ?case by (intro exI [of _ "[]"]) simp
next
  case (Cons r rs)
  show ?case
  proof (cases "vals r")
    case (Inl e)
    then show ?thesis by (intro exI [of _ "[]"]) simp
  next
    case (Inr p)
    obtain a b where p: "p = (a, b)" by (cases p)
    let ?s = "writerow b (writerow a s)"
    obtain ps where ps: "snd (rounds_loop vals rs ?s) = ?s\<lparr>csv_output := csv_output ?s @ rows_of ps\<rparr>"
      "map vals (take (length ps) rs) = map Inr ps"
      "case fst (rounds_loop vals rs ?s) of
          None \<Rightarrow> length ps = length rs
        | Some e \<Rightarrow> length ps < length rs \<and> vals (rs ! length ps) = Inl e"
      using Cons.IH [of ?s] by blast
    have 1: "snd (rounds_loop vals (r # rs) s) = s\<lparr>csv_output := csv_output s @ rows_of (p # ps)\<rparr>"
      using Inr p ps(1) by (simp add: writerow_def)
    have 2: "map vals (take (length (p # ps)) (r # rs)) = map Inr (p # ps)"
      using Inr ps(2) by simp
    have 3: "case fst (rounds_loop vals (r # rs) s) of
          None \<Rightarrow> length (p # ps) = length (r # rs)
        | Some e \<Rightarrow> length (p # ps) < length (r # rs) \<and> vals ((r # rs) ! length (p # ps)) = Inl e"
      using Inr p ps(3) by (simp split: option.splits)
    from 1 2 3 show ?thesis by blast
  qed
qed

lemma rows_of_append: "rows_of (ps @ qs) = rows_of ps @ rows_of qs"
  by (induction ps rule: rows_of.induct) auto

lemma data_pair_mono: "data_pair vals ld fs p \<Longrightarrow> data_pair vals ld (fs @ gs) p"
  by (auto simp: data_pair_def list_ex_iff)

lemma data_pair_last:
  "list_ex (\<lambda>(parsed_data, r). vals parsed_data r = Inr p) (file_rounds ld f) \<Longrightarrow>
   data_pair vals ld (fs @ [f]) p"
  by (auto simp: data_pair_def list_ex_iff)

lemma file_body_not_extracted:
  assumes "\<not> rounds_extracted ld f"
  shows "\<exists>e. file_body header vals ld f s = (Some e, s\<lparr>opened := opened s @ [f]\<rparr>)"
  using assms by (auto simp: file_body_def rounds_extracted_def Let_def split: sum.splits)

lemma take_map_vals_pairs:
  assumes "map vals (take (length ps) rs) = map Inr ps"
  shows "list_all (\<lambda>p. \<exists>r\<in>set rs. vals r = Inr p) ps"
proof -
  have "\<exists>r\<in>set rs. vals r = Inr p" if "p \<in> set ps" for p
  proof -
    from that obtain i where i: "i < length ps" "ps ! i = p" by (auto simp: in_set_conv_nth)
    from assms have len: "length (take (length ps) rs) = length ps"
      by (metis length_map)
    then have "i < length rs" using i(1) by simp
    moreover have "map vals (take (length ps) rs) ! i = map Inr ps ! i" using assms by simp
    then have "vals (rs ! i) = Inr p" using i len by simp
    ultimately show ?thesis by (metis nth_mem)
  qed
  then show ?thesis by (simp add: list_all_iff)
qed

lemma file_body_extracted:
  assumes "rounds_extracted ld f"
  shows "\<exists>ps. snd (file_body header vals ld f s) =
       \<lparr>write_index = (if write_index s = 0 then 1 else write_index s),
        csv_output = after_header header s @ rows_of ps,
        opened = opened s @ [f]\<rparr>
     \<and> list_all (\<lambda>p. list_ex (\<lambda>(parsed_data, r). vals parsed_data r = Inr p) (file_rounds ld f)) ps"
proof -
  from assms obtain parsed_data round_data where pd: "ld f = Inr parsed_data"
    and rd: "subscript parsed_data ''rounds'' = Inr round_data"
    by (auto simp: rounds_extracted_def split: sum.splits)
  let ?s = "write_header header (s\<lparr>opened := opened s @ [f]\<rparr>)"
  have s: "?s = \<lparr>write_index = (if write_index s = 0 then 1 else write_index s),
        csv_output = after_header header s, opened = opened s @ [f]\<rparr>"
    by (simp add: write_header_def writerow_def after_header_def)
  show ?thesis
  proof (cases "py_iter round_data")
    case (Inl e)
    then have "snd (file_body header vals ld f s) = ?s"
      using pd rd by (simp add: file_body_def Let_def)
    then show ?thesis using s by (intro exI [of _ "[]"]) simp
  next
    case (Inr rs)
    then have fb: "file_body header vals ld f s = rounds_loop (vals parsed_data) rs ?s"
      using pd rd by (simp add: file_body_def Let_def)
    obtain ps where ps: "snd (rounds_loop (vals parsed_data) rs ?s) = ?s\<lparr>csv_output := csv_output ?s @ rows_of ps\<rparr>"
      "map (vals parsed_data) (take (length ps) rs) = map Inr ps"
      using rounds_loop_shape [of "vals parsed_data" rs ?s] by blast
    have fr: "file_rounds ld f = map (Pair parsed_data) rs"
      using pd rd Inr by (simp add: file_rounds_def)
    have "list_all (\<lambda>p. \<exists>r\<in>set rs. vals parsed_data r = Inr p) ps"
      using take_map_vals_pairs [OF ps(2)] .
    then have "list_all (\<lambda>p. list_ex (\<lambda>(parsed_data, r). vals parsed_data r = Inr p) (file_rounds ld f)) ps"
      unfolding fr by (auto simp: list_all_iff list_ex_iff)
    moreover have "snd (file_body header vals ld f s) =
       \<lparr>write_index = (if write_index s = 0 then 1 else write_index s),
        csv_output = after_header header s @ rows_of ps,
        opened = opened s @ [f]\<rparr>"
      unfolding fb ps(1) by (simp add: s)
    ultimately show ?thesis by blast
  qed
qed

lemma file_body_lazy_header:
  assumes "lazy_header header vals ld s"
  shows "lazy_header header vals ld (snd (file_body header vals ld f s))"
proof (cases "rounds_extracted ld f")
  case False
  then obtain e where "file_body header vals ld f s = (Some e, s\<lparr>opened := opened s @ [f]\<rparr>)"
    using file_body_not_extracted by blast
  then show ?thesis using assms False
    by (auto simp: lazy_header_def list_all_iff intro: data_pair_mono split: if_splits)
next
  case True
  then obtain ps where ps: "snd (file_body header vals ld f s) =
       \<lparr>write_index = (if write_index s = 0 then 1 else write_index s),
        csv_output = after_header header s @ rows_of ps,
        opened = opened s @ [f]\<rparr>"
    and dp: "list_all (\<lambda>p. list_ex (\<lambda>(parsed_data, r). vals parsed_data r = Inr p) (file_rounds ld f)) ps"
    using file_body_extracted by blast
  from dp have dp': "list_all (data_pair vals ld (opened s @ [f])) ps"
    by (auto simp: list_all_iff intro: data_pair_last)
  show ?thesis
  proof (cases "list_ex (rounds_extracted ld) (opened s)")
    case ex: True
    with assms obtain qs where qs: "write_index s = 1" "csv_output s = map JStr header # rows_of qs"
      "list_all (data_pair vals ld (opened s)) qs"
      by (auto simp: lazy_header_def)
    have "csv_output (snd (file_body header vals ld f s)) = map JStr header # rows_of (qs @ ps)"
      using ps qs by (simp add: after_header_def rows_of_append)
    moreover have "list_all (data_pair vals ld (opened s @ [f])) (qs @ ps)"
      using qs(3) dp' by (auto simp: list_all_iff intro: data_pair_mono)
    ultimately show ?thesis using ps qs(1) True unfolding lazy_header_def by auto
  next
    case nex: False
    with assms have z: "write_index s = 0" "csv_output s = []"
      by (auto simp: lazy_header_def)
    have "csv_output (snd (file_body header vals ld f s)) = map JStr header # rows_of ps"
      using ps z by (simp add: after_header_def)
    then show ?thesis using ps z dp' True unfolding lazy_header_def by auto
  qed
qed

lemma files_loop_lazy_header:
  "lazy_header header vals ld s \<Longrightarrow>
   lazy_header header vals ld (snd (files_loop header vals ld fs s))"
proof (induction fs arbitrary: s)
  case Nil
  then show ?case by simp
next
  case (Cons f fs)
  obtain r s' where fb: "file_body header vals ld f s = (r, s')"
    by (cases "file_body header vals ld f s")
  have s': "lazy_header header vals ld s'"
    using file_body_lazy_header [OF Cons.prems, of f] fb by simp
  show ?case
  proof (cases r)
    case None
    then show ?thesis using fb Cons.IH [OF s'] by simp
  next
    case (Some e)
    then show ?thesis using fb s' by simp
  qed
qed

lemma main_lazy_header: "lazy_header header vals (load e) (snd (main header vals e old))"
proof (cases "listdir e")
  case (Inl err)
  then show ?thesis by (simp add: main_def lazy_header_def open_w_def)
next
  case (Inr names)
  have "lazy_header header vals (load e) (open_w old)"
    by (simp add: lazy_header_def open_w_def)
  then show ?thesis using Inr by (simp add: main_def files_loop_lazy_header)
qed

lemma scenario_A_vals: "vals_v1 pd (JObj scenario_A_fields) = Inr (scenario_A_p1, scenario_A_p2)"
  by (simp add: vals_v1_def p1_vals_v1_def p2_vals_v1_def scenario_A_fields_def
      scenario_A_p1_def scenario_A_p2_def)

lemma scenario_A_selected: "files [''g1.json''] = [''g1.json'']"
  by code_simp

lemma scenario_A_run:
  "main_v1 scenario_A_env old =
     (None, \<lparr>write_index = 1,
             csv_output = [map JStr header_v1, scenario_A_p1, scenario_A_p2],
             opened = [''g1.json'']\<rparr>)"
  by (simp add: main_v1_def main_def scenario_A_env_def scenario_A_selected open_w_def
      file_body_def scenario_A_record_def scenario_A_vals write_header_def writerow_def)

lemma scenario_A_line: "csv_line scenario_A_p1 = Some ''g1,0,p1,100,rock,500,win,200,1,1''"
  by code_simp

lemma scenario_A_line2: "csv_line scenario_A_p2 = Some ''g1,0,p2,100,scissors,600,lose,200,0,0''"
  by code_simp

lemma scenario_B_vals:
  "vals_v3 (JObj scenario_B_session) (JObj scenario_B_round) = Inr (scenario_B_p1, scenario_B_p2)"
  by (simp add: vals_v3_def p1_vals_v3_def p2_vals_v3_def get_or_NA_def scenario_B_session_def
      scenario_B_round_def scenario_B_p1_def scenario_B_p2_def)

lemma scenario_B_has_keys:
  "has_keys (JObj scenario_B_session) session_keys_v3"
  "has_keys (JObj scenario_B_round) round_keys_v3"
  by code_simp+

lemma vals_v3_session_keys_only:
  assumes "\<forall>k\<in>set session_keys_v3. map_of pkv k = map_of pkv' k"
  shows "vals_v3 (JObj pkv) r = vals_v3 (JObj pkv') r"
proof -
  have p1: "p1_vals_v3 (JObj pkv) r = p1_vals_v3 (JObj pkv') r"
    using assms by (simp add: p1_vals_v3_def session_keys_v3_def)
  have p2: "p2_vals_v3 (JObj pkv) r ms mv = p2_vals_v3 (JObj pkv') r ms mv" for ms mv
    using assms by (simp add: p2_vals_v3_def session_keys_v3_def)
  show ?thesis unfolding vals_v3_def p1 p2 ..
qed

lemma vals_v3_round_keys_only:
  assumes "\<forall>k\<in>set (round_keys_v3 @ optional_keys_v3). map_of rkv k = map_of rkv' k"
  shows "vals_v3 parsed_data (JObj rkv) = vals_v3 parsed_data (JObj rkv')"
proof -
  have g1: "get_or_NA (JObj rkv) ''player2_memory_struct'' = get_or_NA (JObj rkv') ''player2_memory_struct''"
    and g2: "get_or_NA (JObj rkv) ''player2_move'' = get_or_NA (JObj rkv') ''player2_move''"
    using assms by (simp_all add: get_or_NA_JObj optional_keys_v3_def)
  have p1: "p1_vals_v3 parsed_data (JObj rkv) = p1_vals_v3 parsed_data (JObj rkv')"
    using assms by (simp add: p1_vals_v3_def round_keys_v3_def)
  have p2: "p2_vals_v3 parsed_data (JObj rkv) ms mv = p2_vals_v3 parsed_data (JObj rkv') ms mv" for ms mv
    using assms by (simp add: p2_vals_v3_def round_keys_v3_def)
  show ?thesis unfolding vals_v3_def g1 g2 p1 p2 ..
qed

lemma vals_v3_missing_key:
  assumes "\<not> (has_keys (JObj pkv) session_keys_v3 \<and> has_keys (JObj rkv) round_keys_v3)"
  shows "\<exists>k. vals_v3 (JObj pkv) (JObj rkv) = Inl (KeyError k) \<and>
     (k \<in> set round_keys_v3 \<and> map_of rkv k = None \<or> k \<in> set session_keys_v3 \<and> map_of pkv k = None)"
proof (cases "vals_v3 (JObj pkv) (JObj rkv)")
  case (Inl e)
  then show ?thesis using vals_v3_error [OF Inl] by auto
next
  case (Inr p)
  then show ?thesis using vals_v3_complete [OF Inr] assms by simp
qed


lemma file_body_first_round_fails:
  assumes "ld f = Inr parsed_data" and "subscript parsed_data ''rounds'' = Inr (JList (r # rs))"
    and "vals parsed_data r = Inl err"
  shows "file_body header vals ld f s =
     (Some err, \<lparr>write_index = (if write_index s = 0 then 1 else write_index s),
                 csv_output = after_header header s,
                 opened = opened s @ [f]\<rparr>)"
  using assms
  by (simp add: file_body_def Let_def write_header_def writerow_def after_header_def)

lemma scenario_B_no_botid:
  "map_of (take 6 scenario_B_session) ''player2_botid'' = None"
  "vals_v3 (JObj (take 6 scenario_B_session)) (JObj scenario_B_round) = Inl (KeyError ''player2_botid'')"
  by (simp_all add: vals_v3_def p1_vals_v3_def p2_vals_v3_def get_or_NA_def scenario_B_session_def
      scenario_B_round_def)

lemma scenario_A_has_keys: "has_keys (JObj scenario_A_fields) round_keys_v1"
  by code_simp



lemma selected_iff:
  "selected f \<longleftrightarrow>
     (\<exists>p. f = p @ ''.json'')
     \<and> \<not> (\<exists>p q. f = p @ ''TEST'' @ q)
     \<and> \<not> (\<exists>p q. f = p @ ''freeResp'' @ q)
     \<and> \<not> (\<exists>p q. f = p @ ''sliderData'' @ q)"
  unfolding selected_def endswith_iff str_contains_iff ..

lemma pilot_not_selected: "\<not> selected ''pilot_TEST_01.json''"
  by code_simp

lemma listed_selected: "f \<in> set (listed e) \<Longrightarrow> selected f"
  by (cases "listdir e") (auto simp: listed_def files_def)

lemma main_opened_selected: "f \<in> set (opened (snd (main header vals e old))) \<Longrightarrow> selected f"
proof -
  assume f: "f \<in> set (opened (snd (main header vals e old)))"
  obtain n where "opened (snd (main header vals e old)) = take n (listed e)"
    using main_opened by blast
  with f have "f \<in> set (listed e)" by (auto dest: in_set_takeD)
  then show ?thesis by (rule listed_selected)
qed

lemma scenario_A_header_line:
  "csv_line (map JStr header_v1) = Some ''game_id,round_index,player_id,round_begin_ts,player_move,player_rt,player_outcome,player_outcome_viewtime,player_points,player_total''"
  by code_simp










section \<open>The properties\<close>



text \<open>
  C2. For a round record holding every required field (and, in version 3, a session
  record holding its seven fields), both rows are built and each column holds the value of
  its JSON field, unchanged: the round's field, the session's field (version 3), the
  constants 0 and 1 in \<open>is_bot\<close>, and \<open>NA\<close> in \<open>bot_round_memory\<close> of the player-1 row and
  in place of an absent \<open>player2_memory_struct\<close> or \<open>player2_move\<close>.
\<close>

theorem C2_fields_copied_unchanged:
  "(has_keys (JObj kvs) round_keys_v1 \<longrightarrow>
      (\<exists>p1_vals p2_vals. vals_v1 parsed_data (JObj kvs) = Inr (p1_vals, p2_vals)
         \<and> length p1_vals = length header_v1 \<and> length p2_vals = length header_v1
         \<and> zip header_v1 (map Some p1_vals) =
             [(''game_id'', map_of kvs ''game_id''),
              (''round_index'', map_of kvs ''round_index''),
              (''player_id'', map_of kvs ''player1_id''),
              (''round_begin_ts'', map_of kvs ''round_begin_ts''),
              (''player_move'', map_of kvs ''player1_move''),
              (''player_rt'', map_of kvs ''player1_rt''),
              (''player_outcome'', map_of kvs ''player1_outcome''),
              (''player_outcome_viewtime'', map_of kvs ''player1_outcome_viewtime''),
              (''player_points'', map_of kvs ''player1_points''),
              (''player_total'', map_of kvs ''player1_total'')]
         \<and> zip header_v1 (map Some p2_vals) =
             [(''game_id'', map_of kvs ''game_id''),
              (''round_index'', map_of kvs ''round_index''),
              (''player_id'', map_of kvs ''player2_id''),
              (''round_begin_ts'', map_of kvs ''round_begin_ts''),
              (''player_move'', map_of kvs ''player2_move''),
              (''player_rt'', map_of kvs ''player2_rt''),
              (''player_outcome'', map_of kvs ''player2_outcome''),
              (''player_outcome_viewtime'', map_of kvs ''player2_outcome_viewtime''),
              (''player_points'', map_of kvs ''player2_points''),
              (''player_total'', map_of kvs ''player2_total'')]))
   \<and> (has_keys (JObj pkv) session_keys_v3 \<and> has_keys (JObj rkv) round_keys_v3 \<longrightarrow>
      (\<exists>p1_vals p2_vals. vals_v3 (JObj pkv) (JObj rkv) = Inr (p1_vals, p2_vals)
         \<and> length p1_vals = length header_v3 \<and> length p2_vals = length header_v3
         \<and> zip header_v3 (map Some p1_vals) =
             [(''game_id'', map_of rkv ''game_id''),
              (''version'', map_of pkv ''version''),
              (''is_sona_autocredit'', map_of pkv ''sona''),
              (''sona_experiment_id'', map_of pkv ''experiment_id''),
              (''sona_credit_token'', map_of pkv ''credit_token''),
              (''sona_survey_code'', map_of pkv ''survey_code''),
              (''round_index'', map_of rkv ''round_index''),
              (''player_id'', map_of rkv ''player1_id''),
              (''is_bot'', Some (JInt 0)),
              (''bot_strategy'', map_of pkv ''player2_bot_strategy''),
              (''bot_round_memory'', Some (JStr ''NA'')),
              (''round_begin_ts'', map_of rkv ''round_begin_ts''),
              (''player_move'', map_of rkv ''player1_move''),
              (''player_rt'', map_of rkv ''player1_rt''),
              (''player_outcome'', map_of rkv ''player1_outcome''),
              (''player_outcome_viewtime'', map_of rkv ''player1_outcome_viewtime''),
              (''player_points'', map_of rkv ''player1_points''),
              (''player_total'', map_of rkv ''player1_total'')]
         \<and> zip header_v3 (map Some p2_vals) =
             [(''game_id'', map_of rkv ''game_id''),
              (''version'', map_of pkv ''version''),
              (''is_sona_autocredit'', map_of pkv ''sona''),
              (''sona_experiment_id'', map_of pkv ''experiment_id''),
              (''sona_credit_token'', map_of pkv ''credit_token''),
              (''sona_survey_code'', map_of pkv ''survey_code''),
              (''round_index'', map_of rkv ''round_index''),
              (''player_id'', map_of pkv ''player2_botid''),
              (''is_bot'', Some (JInt 1)),
              (''bot_strategy'', map_of pkv ''player2_bot_strategy''),
              (''bot_round_memory'',
                 (case map_of rkv ''player2_memory_struct'' of
                    None \<Rightarrow> Some (JStr ''NA'') | Some v \<Rightarrow> Some v)),
              (''round_begin_ts'', map_of rkv ''round_begin_ts''),
              (''player_move'',
                 (case map_of rkv ''player2_move'' of
                    None \<Rightarrow> Some (JStr ''NA'') | Some v \<Rightarrow> Some v)),
              (''player_rt'', map_of rkv ''player2_rt''),
              (''player_outcome'', map_of rkv ''player2_outcome''),
              (''player_outcome_viewtime'', map_of rkv ''player2_outcome_viewtime''),
              (''player_points'', map_of rkv ''player2_points''),
              (''player_total'', map_of rkv ''player2_total'')]))"
proof (intro conjI impI)
  assume "has_keys (JObj kvs) round_keys_v1"
  from vals_v1_present [OF this, of parsed_data]
  obtain p1 p2 where v: "vals_v1 parsed_data (JObj kvs) = Inr (p1, p2)"
    and p1: "map Some p1 = map (map_of kvs)
          [''game_id'', ''round_index'', ''player1_id'', ''round_begin_ts'',
           ''player1_move'', ''player1_rt'', ''player1_outcome'', ''player1_outcome_viewtime'',
           ''player1_points'', ''player1_total'']"
    and p2: "map Some p2 = map (map_of kvs)
          [''game_id'', ''round_index'', ''player2_id'', ''round_begin_ts'',
           ''player2_move'', ''player2_rt'', ''player2_outcome'', ''player2_outcome_viewtime'',
           ''player2_points'', ''player2_total'']"
    by blast
  have "length (map Some p1) = 10" "length (map Some p2) = 10"
    unfolding p1 p2 by simp_all
  then have len: "length p1 = length header_v1" "length p2 = length header_v1"
    by (simp_all add: header_v1_def)
  show "\<exists>p1_vals p2_vals. vals_v1 parsed_data (JObj kvs) = Inr (p1_vals, p2_vals)
         \<and> length p1_vals = length header_v1 \<and> length p2_vals = length header_v1
         \<and> zip header_v1 (map Some p1_vals) =
             [(''game_id'', map_of kvs ''game_id''),
              (''round_index'', map_of kvs ''round_index''),
              (''player_id'', map_of kvs ''player1_id''),
              (''round_begin_ts'', map_of kvs ''round_begin_ts''),
              (''player_move'', map_of kvs ''player1_move''),
              (''player_rt'', map_of kvs ''player1_rt''),
              (''player_outcome'', map_of kvs ''player1_outcome''),
              (''player_outcome_viewtime'', map_of kvs ''player1_outcome_viewtime''),
              (''player_points'', map_of kvs ''player1_points''),
              (''player_total'', map_of kvs ''player1_total'')]
         \<and> zip header_v1 (map Some p2_vals) =
             [(''game_id'', map_of kvs ''game_id''),
              (''round_index'', map_of kvs ''round_index''),
              (''player_id'', map_of kvs ''player2_id''),
              (''round_begin_ts'', map_of kvs ''round_begin_ts''),
              (''player_move'', map_of kvs ''player2_move''),
              (''player_rt'', map_of kvs ''player2_rt''),
              (''player_outcome'', map_of kvs ''player2_outcome''),
              (''player_outcome_viewtime'', map_of kvs ''player2_outcome_viewtime''),
              (''player_points'', map_of kvs ''player2_points''),
              (''player_total'', map_of kvs ''player2_total'')]"
    apply (rule exI [of _ p1], rule exI [of _ p2], intro conjI v len)
    unfolding p1 p2 by (simp_all add: header_v1_def)
next
  assume "has_keys (JObj pkv) session_keys_v3 \<and> has_keys (JObj rkv) round_keys_v3"
  then have hs: "has_keys (JObj pkv) session_keys_v3" and hr: "has_keys (JObj rkv) round_keys_v3"
    by simp_all
  from vals_v3_present [OF hs hr]
  obtain p1 p2 where v: "vals_v3 (JObj pkv) (JObj rkv) = Inr (p1, p2)"
    and p1: "map Some p1 =
          [map_of rkv ''game_id'',
           map_of pkv ''version'', map_of pkv ''sona'', map_of pkv ''experiment_id'',
           map_of pkv ''credit_token'', map_of pkv ''survey_code'',
           map_of rkv ''round_index'', map_of rkv ''player1_id'', Some (JInt 0),
           map_of pkv ''player2_bot_strategy'', Some (JStr ''NA''),
           map_of rkv ''round_begin_ts'',
           map_of rkv ''player1_move'', map_of rkv ''player1_rt'', map_of rkv ''player1_outcome'',
           map_of rkv ''player1_outcome_viewtime'',
           map_of rkv ''player1_points'', map_of rkv ''player1_total'']"
    and p2: "map Some p2 =
          [map_of rkv ''game_id'',
           map_of pkv ''version'', map_of pkv ''sona'', map_of pkv ''experiment_id'',
           map_of pkv ''credit_token'', map_of pkv ''survey_code'',
           map_of rkv ''round_index'', map_of pkv ''player2_botid'', Some (JInt 1),
           map_of pkv ''player2_bot_strategy'',
           (case map_of rkv ''player2_memory_struct'' of
              None \<Rightarrow> Some (JStr ''NA'') | Some v \<Rightarrow> Some v),
           map_of rkv ''round_begin_ts'',
           (case map_of rkv ''player2_move'' of
              None \<Rightarrow> Some (JStr ''NA'') | Some v \<Rightarrow> Some v),
           map_of rkv ''player2_rt'', map_of rkv ''player2_outcome'',
           map_of rkv ''player2_outcome_viewtime'',
           map_of rkv ''player2_points'', map_of rkv ''player2_total'']"
    by (elim exE conjE) (rule that, assumption+)
  have "length (map Some p1) = 18" "length (map Some p2) = 18"
    unfolding p1 p2 by simp_all
  then have len: "length p1 = length header_v3" "length p2 = length header_v3"
    by (simp_all add: header_v3_def)
  show "\<exists>p1_vals p2_vals. vals_v3 (JObj pkv) (JObj rkv) = Inr (p1_vals, p2_vals)
         \<and> length p1_vals = length header_v3 \<and> length p2_vals = length header_v3
         \<and> zip header_v3 (map Some p1_vals) =
             [(''game_id'', map_of rkv ''game_id''),
              (''version'', map_of pkv ''version''),
              (''is_sona_autocredit'', map_of pkv ''sona''),
              (''sona_experiment_id'', map_of pkv ''experiment_id''),
              (''sona_credit_token'', map_of pkv ''credit_token''),
              (''sona_survey_code'', map_of pkv ''survey_code''),
              (''round_index'', map_of rkv ''round_index''),
              (''player_id'', map_of rkv ''player1_id''),
              (''is_bot'', Some (JInt 0)),
              (''bot_strategy'', map_of pkv ''player2_bot_strategy''),
              (''bot_round_memory'', Some (JStr ''NA'')),
              (''round_begin_ts'', map_of rkv ''round_begin_ts''),
              (''player_move'', map_of rkv ''player1_move''),
              (''player_rt'', map_of rkv ''player1_rt''),
              (''player_outcome'', map_of rkv ''player1_outcome''),
              (''player_outcome_viewtime'', map_of rkv ''player1_outcome_viewtime''),
              (''player_points'', map_of rkv ''player1_points''),
              (''player_total'', map_of rkv ''player1_total'')]
         \<and> zip header_v3 (map Some p2_vals) =
             [(''game_id'', map_of rkv ''game_id''),
              (''version'', map_of pkv ''version''),
              (''is_sona_autocredit'', map_of pkv ''sona''),
              (''sona_experiment_id'', map_of pkv ''experiment_id''),
              (''sona_credit_token'', map_of pkv ''credit_token''),
              (''sona_survey_code'', map_of pkv ''survey_code''),
              (''round_index'', map_of rkv ''round_index''),
              (''player_id'', map_of pkv ''player2_botid''),
              (''is_bot'', Some (JInt 1)),
              (''bot_strategy'', map_of pkv ''player2_bot_strategy''),
              (''bot_round_memory'',
                 (case map_of rkv ''player2_memory_struct'' of
                    None \<Rightarrow> Some (JStr ''NA'') | Some v \<Rightarrow> Some v)),
              (''round_begin_ts'', map_of rkv ''round_begin_ts''),
              (''player_move'',
                 (case map_of rkv ''player2_move'' of
                    None \<Rightarrow> Some (JStr ''NA'') | Some v \<Rightarrow> Some v)),
              (''player_rt'', map_of rkv ''player2_rt''),
              (''player_outcome'', map_of rkv ''player2_outcome''),
              (''player_outcome_viewtime'', map_of rkv ''player2_outcome_viewtime''),
              (''player_points'', map_of rkv ''player2_points''),
              (''player_total'', map_of rkv ''player2_total'')]"
    apply (rule exI [of _ p1], rule exI [of _ p2], intro conjI v len)
    unfolding p1 p2 by (simp_all add: header_v3_def)
qed

theorem C2_fields_copied_unchanged_witness:
  "has_keys (JObj scenario_A_fields) round_keys_v1
   \<and> has_keys (JObj scenario_B_session) session_keys_v3
   \<and> has_keys (JObj scenario_B_round) round_keys_v3
   \<and> vals_v1 JNull (JObj scenario_A_fields) = Inr (scenario_A_p1, scenario_A_p2)
   \<and> map_of (zip header_v1 (map Some scenario_A_p1)) ''player_move''
       = Some (map_of scenario_A_fields ''player1_move'')
   \<and> vals_v3 (JObj scenario_B_session) (JObj scenario_B_round) = Inr (scenario_B_p1, scenario_B_p2)
   \<and> map_of (zip header_v3 (map Some scenario_B_p2)) ''player_move'' = Some (Some (JStr ''NA''))"
proof -
  note C2 = C2_fields_copied_unchanged
  have "\<exists>p1 p2. vals_v1 JNull (JObj scenario_A_fields) = Inr (p1, p2)
      \<and> map_of (zip header_v1 (map Some p1)) ''player_move''
          = Some (map_of scenario_A_fields ''player1_move'')"
    using C2 [where kvs = scenario_A_fields and parsed_data = JNull, THEN conjunct1]
      scenario_A_has_keys
    by fastforce
  then have 1: "map_of (zip header_v1 (map Some scenario_A_p1)) ''player_move''
       = Some (map_of scenario_A_fields ''player1_move'')"
    by (simp add: scenario_A_vals)
  have mv: "map_of scenario_B_round ''player2_move'' = None"
    by (simp add: scenario_B_round_def)
  have "\<exists>p1 p2. vals_v3 (JObj scenario_B_session) (JObj scenario_B_round) = Inr (p1, p2)
      \<and> map_of (zip header_v3 (map Some p2)) ''player_move''
          = Some (case map_of scenario_B_round ''player2_move'' of
                    None \<Rightarrow> Some (JStr ''NA'') | Some v \<Rightarrow> Some v)"
    using C2 [where pkv = scenario_B_session and rkv = scenario_B_round, THEN conjunct2]
      scenario_B_has_keys
    by fastforce
  then have 2: "map_of (zip header_v3 (map Some scenario_B_p2)) ''player_move'' = Some (Some (JStr ''NA''))"
    by (simp add: scenario_B_vals mv)
  from scenario_A_has_keys scenario_B_has_keys scenario_A_vals 1 scenario_B_vals 2
  show ?thesis by blast
qed

text \<open>
  C3. The Scanner keeps, in the order of the listing, exactly the names that end with
  \<open>.json\<close> and contain none of \<open>TEST\<close>, \<open>freeResp\<close>, \<open>sliderData\<close>. A run of either
  script opens a leading part of that selection and nothing else; in particular it never
  opens \<open>pilot_TEST_01.json\<close>.
\<close>

theorem C3_scanner_selection:
  "files names =
     filter (\<lambda>f. (\<exists>p. f = p @ ''.json'')
                \<and> \<not> (\<exists>p q. f = p @ ''TEST'' @ q)
                \<and> \<not> (\<exists>p q. f = p @ ''freeResp'' @ q)
                \<and> \<not> (\<exists>p q. f = p @ ''sliderData'' @ q)) names
   \<and> (\<exists>n. opened (snd (main_v1 e old)) = take n (listed e))
   \<and> (\<exists>n. opened (snd (main_v3 e old)) = take n (listed e))
   \<and> ''pilot_TEST_01.json'' \<notin> set (opened (snd (main_v1 e old)))
   \<and> ''pilot_TEST_01.json'' \<notin> set (opened (snd (main_v3 e old)))"
proof -
  have 1: "files names =
     filter (\<lambda>f. (\<exists>p. f = p @ ''.json'')
                \<and> \<not> (\<exists>p q. f = p @ ''TEST'' @ q)
                \<and> \<not> (\<exists>p q. f = p @ ''freeResp'' @ q)
                \<and> \<not> (\<exists>p q. f = p @ ''sliderData'' @ q)) names"
    unfolding files_def selected_iff ..
  have 2: "\<exists>n. opened (snd (main_v1 e old)) = take n (listed e)"
    and 3: "\<exists>n. opened (snd (main_v3 e old)) = take n (listed e)"
    unfolding main_v1_def main_v3_def by (rule main_opened)+
  have 4: "''pilot_TEST_01.json'' \<notin> set (opened (snd (main_v1 e old)))"
    and 5: "''pilot_TEST_01.json'' \<notin> set (opened (snd (main_v3 e old)))"
    unfolding main_v1_def main_v3_def using main_opened_selected pilot_not_selected by blast+
  from 1 2 3 4 5 show ?thesis by blast
qed

text \<open>
  C4. In version 3, for every round record whose values are built, the player-2 row's
  \<open>player_move\<close> is \<open>NA\<close> when the record has no key \<open>player2_move\<close> and the record's
  value otherwise, and its \<open>bot_round_memory\<close> is \<open>NA\<close> when the record has no key
  \<open>player2_memory_struct\<close> and the record's value otherwise. The values are built whenever
  the seven session keys and the fifteen other round keys are present, whether or not the
  two optional keys are; when one of those required keys is missing, building the values
  raises a \<open>KeyError\<close> for a missing required key.
\<close>

theorem C4_optional_fields_default_NA:
  "(vals_v3 parsed_data (JObj rkv) = Inr (p1_vals, p2_vals) \<longrightarrow>
      column header_v3 ''player_move'' p2_vals =
        Some (case map_of rkv ''player2_move'' of None \<Rightarrow> JStr ''NA'' | Some v \<Rightarrow> v)
      \<and> column header_v3 ''bot_round_memory'' p2_vals =
        Some (case map_of rkv ''player2_memory_struct'' of None \<Rightarrow> JStr ''NA'' | Some v \<Rightarrow> v))
   \<and> (has_keys (JObj pkv) session_keys_v3 \<and> has_keys (JObj rkv) round_keys_v3 \<longrightarrow>
        (\<exists>p. vals_v3 (JObj pkv) (JObj rkv) = Inr p))
   \<and> (\<not> (has_keys (JObj pkv) session_keys_v3 \<and> has_keys (JObj rkv) round_keys_v3) \<longrightarrow>
        (\<exists>k. vals_v3 (JObj pkv) (JObj rkv) = Inl (KeyError k)
            \<and> k \<notin> set optional_keys_v3
            \<and> (k \<in> set round_keys_v3 \<and> map_of rkv k = None
                \<or> k \<in> set session_keys_v3 \<and> map_of pkv k = None)))"
proof -
  have 1: "vals_v3 parsed_data (JObj rkv) = Inr (p1_vals, p2_vals) \<longrightarrow>
      column header_v3 ''player_move'' p2_vals =
        Some (case map_of rkv ''player2_move'' of None \<Rightarrow> JStr ''NA'' | Some v \<Rightarrow> v)
      \<and> column header_v3 ''bot_round_memory'' p2_vals =
        Some (case map_of rkv ''player2_memory_struct'' of None \<Rightarrow> JStr ''NA'' | Some v \<Rightarrow> v)"
  proof
    assume a: "vals_v3 parsed_data (JObj rkv) = Inr (p1_vals, p2_vals)"
    from vals_v3_columns(5) [OF a] vals_v3_columns(6) [OF a]
    show "column header_v3 ''player_move'' p2_vals =
        Some (case map_of rkv ''player2_move'' of None \<Rightarrow> JStr ''NA'' | Some v \<Rightarrow> v)
      \<and> column header_v3 ''bot_round_memory'' p2_vals =
        Some (case map_of rkv ''player2_memory_struct'' of None \<Rightarrow> JStr ''NA'' | Some v \<Rightarrow> v)"
      by (auto simp: get_or_NA_JObj)
  qed
  have 2: "has_keys (JObj pkv) session_keys_v3 \<and> has_keys (JObj rkv) round_keys_v3 \<longrightarrow>
        (\<exists>p. vals_v3 (JObj pkv) (JObj rkv) = Inr p)"
    using vals_v3_present [of pkv rkv] by blast
  have disj: "k \<notin> set optional_keys_v3" if "k \<in> set round_keys_v3 \<or> k \<in> set session_keys_v3" for k
    using that by (auto simp: optional_keys_v3_def round_keys_v3_def session_keys_v3_def)
  have 3: "\<not> (has_keys (JObj pkv) session_keys_v3 \<and> has_keys (JObj rkv) round_keys_v3) \<longrightarrow>
        (\<exists>k. vals_v3 (JObj pkv) (JObj rkv) = Inl (KeyError k)
            \<and> k \<notin> set optional_keys_v3
            \<and> (k \<in> set round_keys_v3 \<and> map_of rkv k = None
                \<or> k \<in> set session_keys_v3 \<and> map_of pkv k = None))"
    using vals_v3_missing_key [of pkv rkv] disj by blast
  from 1 2 3 show ?thesis by blast
qed

theorem C4_optional_fields_default_NA_witness:
  "map_of scenario_B_round ''player2_move'' = None
   \<and> map_of scenario_B_round ''player2_memory_struct'' = Some (JObj [(''rock'', JInt 1)])
   \<and> has_keys (JObj scenario_B_session) session_keys_v3
   \<and> has_keys (JObj scenario_B_round) round_keys_v3
   \<and> vals_v3 (JObj scenario_B_session) (JObj scenario_B_round) = Inr (scenario_B_p1, scenario_B_p2)
   \<and> column header_v3 ''player_move'' scenario_B_p2 = Some (JStr ''NA'')
   \<and> column header_v3 ''bot_round_memory'' scenario_B_p2 = Some (JObj [(''rock'', JInt 1)])
   \<and> \<not> has_keys (JObj (take 6 scenario_B_session)) session_keys_v3
   \<and> (\<exists>k. vals_v3 (JObj (take 6 scenario_B_session)) (JObj scenario_B_round) = Inl (KeyError k)
          \<and> k \<notin> set optional_keys_v3)"
proof -
  note C4 = C4_optional_fields_default_NA
  have mv: "map_of scenario_B_round ''player2_move'' = None"
    and ms: "map_of scenario_B_round ''player2_memory_struct'' = Some (JObj [(''rock'', JInt 1)])"
    by (simp_all add: scenario_B_round_def)
  from C4 [where parsed_data = "JObj scenario_B_session" and rkv = scenario_B_round
      and ?p1_vals.0 = scenario_B_p1 and ?p2_vals.0 = scenario_B_p2] scenario_B_vals mv ms
  have 1: "column header_v3 ''player_move'' scenario_B_p2 = Some (JStr ''NA'')"
    "column header_v3 ''bot_round_memory'' scenario_B_p2 = Some (JObj [(''rock'', JInt 1)])"
    by simp_all
  have no: "\<not> has_keys (JObj (take 6 scenario_B_session)) session_keys_v3"
    by (simp add: scenario_B_session_def session_keys_v3_def)
  with C4 [where pkv = "take 6 scenario_B_session" and rkv = scenario_B_round]
  have 3: "\<exists>k. vals_v3 (JObj (take 6 scenario_B_session)) (JObj scenario_B_round) = Inl (KeyError k)
          \<and> k \<notin> set optional_keys_v3"
    by blast
  from mv ms scenario_B_has_keys scenario_B_vals 1 no 3 show ?thesis by blast
qed

text \<open>
  C5. At the end of every run, failed or not, the output is either empty or the header
  row followed by nothing but data rows, each pair of them the two lists of values of a
  round of an opened file: the header is written once, first, and never again. A run over
  an empty directory ends normally with an empty output.
\<close>

theorem C5_header_once:
  "lazy_header header_v1 vals_v1 (load e) (snd (main_v1 e old))
   \<and> lazy_header header_v3 vals_v3 (load e) (snd (main_v3 e old))
   \<and> main_v1 \<lparr>listdir = Inr [], load = ld\<rparr> old =
       (None, \<lparr>write_index = 0, csv_output = [], opened = []\<rparr>)
   \<and> main_v3 \<lparr>listdir = Inr [], load = ld\<rparr> old =
       (None, \<lparr>write_index = 0, csv_output = [], opened = []\<rparr>)"
  unfolding main_v1_def main_v3_def
  by (simp add: main_lazy_header) (simp add: main_def files_def open_w_def)

theorem C5_header_once_witness:
  "list_ex (rounds_extracted (load scenario_A_env)) [''g1.json'']
   \<and> lazy_header header_v1 vals_v1 (load scenario_A_env)
       \<lparr>write_index = 1,
        csv_output = [map JStr header_v1, scenario_A_p1, scenario_A_p2],
        opened = [''g1.json'']\<rparr>
   \<and> main_v1 \<lparr>listdir = Inr [], load = (\<lambda>f. Inl OSError)\<rparr> [[JStr ''stale'']] =
       (None, \<lparr>write_index = 0, csv_output = [], opened = []\<rparr>)"
proof -
  have "list_ex (rounds_extracted (load scenario_A_env)) [''g1.json'']"
    by (simp add: rounds_extracted_def scenario_A_env_def scenario_A_record_def)
  moreover have "lazy_header header_v1 vals_v1 (load scenario_A_env)
       \<lparr>write_index = 1,
        csv_output = [map JStr header_v1, scenario_A_p1, scenario_A_p2],
        opened = [''g1.json'']\<rparr>"
    using C5_header_once [where e = scenario_A_env and old = "[]"] by (simp add: scenario_A_run)
  moreover have "main_v1 \<lparr>listdir = Inr [], load = (\<lambda>f. Inl OSError)\<rparr> [[JStr ''stale'']] =
       (None, \<lparr>write_index = 0, csv_output = [], opened = []\<rparr>)"
    using C5_header_once [where ld = "\<lambda>f. Inl OSError" and old = "[[JStr ''stale'']]"] by simp
  ultimately show ?thesis by blast
qed




text \<open>
  C7. Scenario A: the run of version 1 over a directory holding only \<open>g1.json\<close> ends
  normally; the output is the header row and two data rows, and the first data row is
  written as \<open>g1,0,p1,100,rock,500,win,200,1,1\<close>.
\<close>

theorem C7_scenario_A:
  "main_v1 scenario_A_env old =
     (None, \<lparr>write_index = 1,
             csv_output =
               [map JStr header_v1,
                [JStr ''g1'', JInt 0, JStr ''p1'', JInt 100, JStr ''rock'', JInt 500,
                 JStr ''win'', JInt 200, JInt 1, JInt 1],
                [JStr ''g1'', JInt 0, JStr ''p2'', JInt 100, JStr ''scissors'', JInt 600,
                 JStr ''lose'', JInt 200, JInt 0, JInt 0]],
             opened = [''g1.json'']\<rparr>)
   \<and> map csv_line (csv_output (snd (main_v1 scenario_A_env old))) =
       [Some ''game_id,round_index,player_id,round_begin_ts,player_move,player_rt,player_outcome,player_outcome_viewtime,player_points,player_total'',
        Some ''g1,0,p1,100,rock,500,win,200,1,1'',
        Some ''g1,0,p2,100,scissors,600,lose,200,0,0'']"
  by (simp add: scenario_A_run scenario_A_line scenario_A_line2 scenario_A_header_line)
    (simp add: scenario_A_p1_def scenario_A_p2_def)


text \<open>
  C9. In version 3, whenever the values of a round are built, the player-1 row holds the
  literal \<open>NA\<close> in the column \<open>bot_round_memory\<close>, whatever the round record holds under
  \<open>player2_memory_struct\<close>.
\<close>

theorem C9_player1_memory_NA:
  assumes "vals_v3 parsed_data r = Inr (p1_vals, p2_vals)"
  shows "column header_v3 ''bot_round_memory'' p1_vals = Some (JStr ''NA'')"
  using vals_v3_columns(1) [OF assms] .

theorem C9_player1_memory_NA_witness:
  "map_of scenario_B_round ''player2_memory_struct'' = Some (JObj [(''rock'', JInt 1)])
   \<and> vals_v3 (JObj scenario_B_session) (JObj scenario_B_round) = Inr (scenario_B_p1, scenario_B_p2)
   \<and> column header_v3 ''bot_round_memory'' scenario_B_p1 = Some (JStr ''NA'')"
proof -
  have "map_of scenario_B_round ''player2_memory_struct'' = Some (JObj [(''rock'', JInt 1)])"
    by (simp add: scenario_B_round_def)
  then show ?thesis
    using scenario_B_vals C9_player1_memory_NA [OF scenario_B_vals] by simp
qed

text \<open>
  C10. In version 3 the player-2 row's \<open>player_id\<close> is the value the session record holds
  under \<open>player2_botid\<close>. The values built for a round depend on the session record through
  seven keys only and on the round record through seventeen keys only, so no bot flag of
  the data has any influence. A session record without \<open>player2_botid\<close> makes the values
  of every round record fail with a \<open>KeyError\<close>, and the file stops at its first round
  with no data row written.
\<close>

theorem C10_player2_id_is_botid:
  "(vals_v3 parsed_data r = Inr (p1_vals, p2_vals) \<longrightarrow>
      (\<exists>v. subscript parsed_data ''player2_botid'' = Inr v
          \<and> column header_v3 ''player_id'' p2_vals = Some v))
   \<and> ((\<forall>k\<in>set session_keys_v3. map_of pkv k = map_of pkv' k) \<longrightarrow>
        vals_v3 (JObj pkv) r = vals_v3 (JObj pkv') r)
   \<and> ((\<forall>k\<in>set (round_keys_v3 @ optional_keys_v3). map_of rkv k = map_of rkv' k) \<longrightarrow>
        vals_v3 parsed_data (JObj rkv) = vals_v3 parsed_data (JObj rkv'))
   \<and> (map_of pkv ''player2_botid'' = None \<longrightarrow>
        (\<exists>k. vals_v3 (JObj pkv) (JObj rkv) = Inl (KeyError k)))
   \<and> (ld f = Inr (JObj pkv) \<and> map_of pkv ''rounds'' = Some (JList (JObj rkv # rs))
        \<and> map_of pkv ''player2_botid'' = None \<longrightarrow>
        (\<exists>k. file_body header_v3 vals_v3 ld f s =
           (Some (KeyError k),
            \<lparr>write_index = (if write_index s = 0 then 1 else write_index s),
             csv_output = after_header header_v3 s,
             opened = opened s @ [f]\<rparr>)))"
proof -
  have fails: "\<exists>k. vals_v3 (JObj pkv) (JObj rkv) = Inl (KeyError k)"
    if "map_of pkv ''player2_botid'' = None"
  proof -
    from that have "\<not> (has_keys (JObj pkv) session_keys_v3 \<and> has_keys (JObj rkv) round_keys_v3)"
      by (simp add: session_keys_v3_def)
    from vals_v3_missing_key [OF this] show ?thesis by blast
  qed
  have 1: "vals_v3 parsed_data r = Inr (p1_vals, p2_vals) \<longrightarrow>
      (\<exists>v. subscript parsed_data ''player2_botid'' = Inr v
          \<and> column header_v3 ''player_id'' p2_vals = Some v)"
    using vals_v3_columns(4) by blast
  have 2: "(\<forall>k\<in>set session_keys_v3. map_of pkv k = map_of pkv' k) \<longrightarrow>
        vals_v3 (JObj pkv) r = vals_v3 (JObj pkv') r"
    using vals_v3_session_keys_only by blast
  have 3: "(\<forall>k\<in>set (round_keys_v3 @ optional_keys_v3). map_of rkv k = map_of rkv' k) \<longrightarrow>
        vals_v3 parsed_data (JObj rkv) = vals_v3 parsed_data (JObj rkv')"
    using vals_v3_round_keys_only by blast
  have 4: "map_of pkv ''player2_botid'' = None \<longrightarrow>
        (\<exists>k. vals_v3 (JObj pkv) (JObj rkv) = Inl (KeyError k))"
    using fails by blast
  have 5: "ld f = Inr (JObj pkv) \<and> map_of pkv ''rounds'' = Some (JList (JObj rkv # rs))
        \<and> map_of pkv ''player2_botid'' = None \<longrightarrow>
        (\<exists>k. file_body header_v3 vals_v3 ld f s =
           (Some (KeyError k),
            \<lparr>write_index = (if write_index s = 0 then 1 else write_index s),
             csv_output = after_header header_v3 s,
             opened = opened s @ [f]\<rparr>))"
  proof
    assume a: "ld f = Inr (JObj pkv) \<and> map_of pkv ''rounds'' = Some (JList (JObj rkv # rs))
        \<and> map_of pkv ''player2_botid'' = None"
    then obtain k where k: "vals_v3 (JObj pkv) (JObj rkv) = Inl (KeyError k)"
      using fails by blast
    from a have ld: "ld f = Inr (JObj pkv)"
      and sub: "subscript (JObj pkv) ''rounds'' = Inr (JList (JObj rkv # rs))" by simp_all
    from file_body_first_round_fails [where ld = ld and f = f and vals = vals_v3, OF ld sub k]
    show "\<exists>k. file_body header_v3 vals_v3 ld f s =
           (Some (KeyError k),
            \<lparr>write_index = (if write_index s = 0 then 1 else write_index s),
             csv_output = after_header header_v3 s,
             opened = opened s @ [f]\<rparr>)"
      by blast
  qed
  from 1 2 3 4 5 show ?thesis by blast
qed

theorem C10_player2_id_is_botid_witness:
  "vals_v3 (JObj scenario_B_session) (JObj scenario_B_round) = Inr (scenario_B_p1, scenario_B_p2)
   \<and> subscript (JObj scenario_B_session) ''player2_botid'' = Inr (JStr ''bot1'')
   \<and> column header_v3 ''player_id'' scenario_B_p2 = Some (JStr ''bot1'')
   \<and> vals_v3 (JObj ((''player2_is_bot'', JBool False) # scenario_B_session)) (JObj scenario_B_round)
       = vals_v3 (JObj scenario_B_session) (JObj scenario_B_round)
   \<and> vals_v3 (JObj scenario_B_session) (JObj ((''player2_id'', JStr ''p2'') # scenario_B_round))
       = vals_v3 (JObj scenario_B_session) (JObj scenario_B_round)
   \<and> map_of (take 6 scenario_B_session) ''player2_botid'' = None
   \<and> (\<exists>k. vals_v3 (JObj (take 6 scenario_B_session)) (JObj scenario_B_round) = Inl (KeyError k))
   \<and> (\<exists>k. file_body header_v3 vals_v3
          (\<lambda>f. Inr (JObj [(''rounds'', JList [JObj scenario_B_round])])) ''b1.json'' (open_w []) =
        (Some (KeyError k),
         \<lparr>write_index = 1, csv_output = [map JStr header_v3], opened = [''b1.json'']\<rparr>))"
proof -
  note C10 = C10_player2_id_is_botid
  have id: "subscript (JObj scenario_B_session) ''player2_botid'' = Inr (JStr ''bot1'')"
    by (simp add: scenario_B_session_def)
  from C10 [where parsed_data = "JObj scenario_B_session" and r = "JObj scenario_B_round"
      and ?p1_vals.0 = scenario_B_p1 and ?p2_vals.0 = scenario_B_p2]
    scenario_B_vals id
  have 1: "column header_v3 ''player_id'' scenario_B_p2 = Some (JStr ''bot1'')" by auto
  have "\<forall>k\<in>set session_keys_v3.
      map_of ((''player2_is_bot'', JBool False) # scenario_B_session) k = map_of scenario_B_session k"
    by (simp add: session_keys_v3_def)
  with C10 [where r = "JObj scenario_B_round"
      and pkv = "(''player2_is_bot'', JBool False) # scenario_B_session" and pkv' = scenario_B_session]
  have 2: "vals_v3 (JObj ((''player2_is_bot'', JBool False) # scenario_B_session)) (JObj scenario_B_round)
       = vals_v3 (JObj scenario_B_session) (JObj scenario_B_round)" by blast
  have "\<forall>k\<in>set (round_keys_v3 @ optional_keys_v3).
      map_of ((''player2_id'', JStr ''p2'') # scenario_B_round) k = map_of scenario_B_round k"
    by (simp add: round_keys_v3_def optional_keys_v3_def)
  with C10 [where parsed_data = "JObj scenario_B_session"
      and rkv = "(''player2_id'', JStr ''p2'') # scenario_B_round" and rkv' = scenario_B_round]
  have 3: "vals_v3 (JObj scenario_B_session) (JObj ((''player2_id'', JStr ''p2'') # scenario_B_round))
       = vals_v3 (JObj scenario_B_session) (JObj scenario_B_round)" by blast
  have 4: "\<exists>k. vals_v3 (JObj (take 6 scenario_B_session)) (JObj scenario_B_round) = Inl (KeyError k)"
    using C10 [where pkv = "take 6 scenario_B_session" and rkv = scenario_B_round] scenario_B_no_botid(1)
    by blast
  have "\<exists>k. file_body header_v3 vals_v3
          (\<lambda>f. Inr (JObj [(''rounds'', JList [JObj scenario_B_round])])) ''b1.json'' (open_w []) =
        (Some (KeyError k),
         \<lparr>write_index = (if write_index (open_w []) = 0 then 1 else write_index (open_w [])),
          csv_output = after_header header_v3 (open_w []),
          opened = opened (open_w []) @ [''b1.json'']\<rparr>)"
    using C10 [where pkv = "[(''rounds'', JList [JObj scenario_B_round])]" and rkv = scenario_B_round
        and ld = "\<lambda>f. Inr (JObj [(''rounds'', JList [JObj scenario_B_round])])"
        and f = "''b1.json''" and rs = "[]" and s = "open_w []"]
    by simp
  then have 5: "\<exists>k. file_body header_v3 vals_v3
          (\<lambda>f. Inr (JObj [(''rounds'', JList [JObj scenario_B_round])])) ''b1.json'' (open_w []) =
        (Some (KeyError k),
         \<lparr>write_index = 1, csv_output = [map JStr header_v3], opened = [''b1.json'']\<rparr>)"
    by (simp add: open_w_def after_header_def)
  from scenario_B_vals id 1 2 3 scenario_B_no_botid(1) 4 5 show ?thesis by blast
qed

end
